theory Spec2Isabelle
  imports Complex_Main
begin

section \<open>Python values shared by the classes of pygame\_tools\<close>

text \<open>
  Python integers are unbounded: they are \<open>int\<close>. A parameter or attribute that may be
  \<open>None\<close> is an \<open>option\<close>. A method mutates its object and may raise: it is a function
  from the object to the exception raised, if any, and the object as the method left it.
\<close>

datatype error = ValueError | IndexError | ZeroDivisionError | AttributeError

text \<open>List indexing \<open>xs[i]\<close>: a negative index counts from the end, anything else out of
  range raises IndexError (here \<open>None\<close>).\<close>

definition py_position :: "'a list \<Rightarrow> int \<Rightarrow> nat option" where
  "py_position xs i =
     (if 0 \<le> i \<and> i < int (length xs) then Some (nat i)
      else if i < 0 \<and> - int (length xs) \<le> i then Some (nat (int (length xs) + i))
      else None)"

definition py_index :: "'a list \<Rightarrow> int \<Rightarrow> 'a option" where
  "py_index xs i = (case py_position xs i of None \<Rightarrow> None | Some j \<Rightarrow> Some (xs ! j))"

section \<open>TrueEvery\<close>

record TrueEvery =
  count :: int
  initial_count :: int
  once :: bool
  calls :: int
  start_value :: int
  first_call :: bool

text \<open>\<open>__init__(count, initial_count=None, once=False, start_value=0)\<close>, every default
  written out by the caller of the model.\<close>

definition TrueEvery_init :: "int \<Rightarrow> int option \<Rightarrow> bool \<Rightarrow> int \<Rightarrow> TrueEvery" where
  "TrueEvery_init cnt init_cnt onc start =
     \<lparr>count = cnt,
      initial_count = (case init_cnt of Some ic \<Rightarrow> ic | None \<Rightarrow> cnt),
      once = onc,
      calls = start,
      start_value = start,
      first_call = True\<rparr>"

text \<open>\<open>__call__\<close>. The value returned is \<open>Some True\<close>, \<open>Some False\<close>, or \<open>None\<close> where
  the body falls off its end (Python's \<open>None\<close>).\<close>

definition TrueEvery_call :: "TrueEvery \<Rightarrow> bool option \<times> TrueEvery" where
  "TrueEvery_call self =
     (if \<not> first_call self \<and> once self then (Some False, self)
      else
        let self = self\<lparr>calls := calls self - 1\<rparr> in
        if calls self \<le> 0 then
          let self = self\<lparr>calls := (if first_call self then initial_count self else count self)\<rparr>;
              self = self\<lparr>first_call := False\<rparr>
          in (Some True, self)
        else (None, self))"

text \<open>The object after \<open>n\<close> successive calls, with no reset between them.\<close>

primrec after_calls :: "nat \<Rightarrow> TrueEvery \<Rightarrow> TrueEvery" where
  "after_calls 0 self = self"
| "after_calls (Suc n) self = after_calls n (snd (TrueEvery_call self))"

text \<open>The value returned by call number \<open>k\<close>, the first call being number 1.\<close>

definition nth_call :: "nat \<Rightarrow> TrueEvery \<Rightarrow> bool option" where
  "nth_call k self = fst (TrueEvery_call (after_calls (k - 1) self))"

text \<open>The values returned by \<open>n\<close> successive calls, in order.\<close>

primrec call_results :: "nat \<Rightarrow> TrueEvery \<Rightarrow> bool option list" where
  "call_results 0 self = []"
| "call_results (Suc n) self =
     fst (TrueEvery_call self) # call_results n (snd (TrueEvery_call self))"

section \<open>Animation\<close>

text \<open>
  An attribute that \<open>__init__\<close> leaves to \<open>load\<close> is \<open>None\<close> until it is assigned, and
  reading it before that raises AttributeError. The file system and the image decoder are
  parameters: \<open>glob\<close> gives the file names a pattern matches, \<open>image_load\<close> the surface
  decoded from a file (\<open>pygame.image.load\<close>).
\<close>

record 's Animation =
  glob_path :: string
  frame_data :: "int list"
  repititions :: "int option"
  finished :: bool
  frames :: "('s \<times> int) list option"
  frame_count :: "int option"
  frame_index :: "int option"
  frames_until_next :: "int option"

definition load ::
  "(string \<Rightarrow> string list) \<Rightarrow> (string \<Rightarrow> 's) \<Rightarrow> string \<Rightarrow> int list \<Rightarrow> 's Animation
     \<Rightarrow> error option \<times> 's Animation" where
  "load glob image_load glob_path' frame_data' self =
     (let file_names = glob glob_path' in
      if length file_names \<noteq> length frame_data' then (Some ValueError, self)
      else
        let fs = map (\<lambda>(i, file_name). (image_load file_name, frame_data' ! i))
                   (enumerate 0 file_names);
            self = self\<lparr>frames := Some fs\<rparr>;
            self = self\<lparr>frame_count := Some (int (length fs))\<rparr>;
            self = self\<lparr>frame_index := Some 0\<rparr>
        in case py_index fs 0 of
             None \<Rightarrow> (Some IndexError, self)
           | Some frame \<Rightarrow> (None, self\<lparr>frames_until_next := Some (snd frame)\<rparr>))"

text \<open>\<open>__init__\<close>: the second component is the object as the constructor left it; when the
  first is an exception, the caller gets no object at all.\<close>

definition Animation_init ::
  "(string \<Rightarrow> string list) \<Rightarrow> (string \<Rightarrow> 's) \<Rightarrow> string \<Rightarrow> int list \<Rightarrow> int option
     \<Rightarrow> error option \<times> 's Animation" where
  "Animation_init glob image_load glob_path' frame_data' repititions' =
     (let self = \<lparr>glob_path = glob_path',
                  frame_data = frame_data',
                  repititions = repititions',
                  finished = (if repititions' = Some 0 then True else False),
                  frames = None, frame_count = None, frame_index = None,
                  frames_until_next = None\<rparr>
      in load glob image_load glob_path' frame_data' self)"

definition update :: "'s Animation \<Rightarrow> error option \<times> 's Animation" where
  "update self =
     (if \<not> finished self then
        (case frames_until_next self of
           None \<Rightarrow> (Some AttributeError, self)
         | Some n \<Rightarrow>
            let self = self\<lparr>frames_until_next := Some (n - 1)\<rparr> in
            if n - 1 = 0 then
              (case frame_index self of
                 None \<Rightarrow> (Some AttributeError, self)
               | Some i \<Rightarrow>
              (case frame_count self of
                 None \<Rightarrow> (Some AttributeError, self)
               | Some c \<Rightarrow>
                  if c = 0 then (Some ZeroDivisionError, self)
                  else
                    let self = self\<lparr>frame_index := Some ((i + 1) mod c)\<rparr> in
                    (case frames self of
                       None \<Rightarrow> (Some AttributeError, self)
                     | Some fs \<Rightarrow>
                    (case py_index fs ((i + 1) mod c) of
                       None \<Rightarrow> (Some IndexError, self)
                     | Some frame \<Rightarrow>
                        let self = self\<lparr>frames_until_next := Some (n - 1 + snd frame)\<rparr> in
                        if (i + 1) mod c = 0 \<and> repititions self \<noteq> None then
                          let r = the (repititions self) - 1;
                              self = self\<lparr>repititions := Some r\<rparr>
                          in if r = 0 then (None, self\<lparr>finished := True\<rparr>)
                             else (None, self)
                        else (None, self)))))
            else (None, self))
      else (None, self))"

definition get_surface :: "'s Animation \<Rightarrow> error + 's" where
  "get_surface self =
     (case frames self of
        None \<Rightarrow> Inl AttributeError
      | Some fs \<Rightarrow>
     (case frame_index self of
        None \<Rightarrow> Inl AttributeError
      | Some i \<Rightarrow>
     (case py_index fs i of
        None \<Rightarrow> Inl IndexError
      | Some frame \<Rightarrow> Inr (fst frame))))"

definition reset :: "'s Animation \<Rightarrow> error option \<times> 's Animation" where
  "reset self =
     (let self = self\<lparr>frame_index := Some 0\<rparr> in
      case frames self of
        None \<Rightarrow> (Some AttributeError, self)
      | Some fs \<Rightarrow>
     (case py_index fs 0 of
        None \<Rightarrow> (Some IndexError, self)
      | Some frame \<Rightarrow> (None, self\<lparr>frames_until_next := Some (snd frame)\<rparr>)))"

text \<open>\<open>n\<close> calls of \<open>update\<close> in a row; an exception ends the run, as it would in the caller.\<close>

primrec updates :: "nat \<Rightarrow> 's Animation \<Rightarrow> error option \<times> 's Animation" where
  "updates 0 self = (None, self)"
| "updates (Suc n) self =
     (case update self of
        (Some e, self') \<Rightarrow> (Some e, self')
      | (None, self') \<Rightarrow> updates n self')"

text \<open>A caller's use of one animation: any sequence of its three mutating methods. A caller
  that catches an exception goes on with the object as the failed method left it.\<close>

datatype anim_op = Update | Reset | Load string "int list"

definition apply_op ::
  "(string \<Rightarrow> string list) \<Rightarrow> (string \<Rightarrow> 's) \<Rightarrow> anim_op \<Rightarrow> 's Animation
     \<Rightarrow> error option \<times> 's Animation" where
  "apply_op glob image_load operation self =
     (case operation of
        Update \<Rightarrow> update self
      | Reset \<Rightarrow> reset self
      | Load glob_path' frame_data' \<Rightarrow> load glob image_load glob_path' frame_data' self)"

primrec run_ops ::
  "(string \<Rightarrow> string list) \<Rightarrow> (string \<Rightarrow> 's) \<Rightarrow> anim_op list \<Rightarrow> 's Animation \<Rightarrow> 's Animation" where
  "run_ops glob image_load [] self = self"
| "run_ops glob image_load (operation # rest) self =
     run_ops glob image_load rest (snd (apply_op glob image_load operation self))"

text \<open>Whether an operation is a \<open>load\<close> of no file with no duration, the one that raises
  IndexError.\<close>

fun empty_load :: "(string \<Rightarrow> string list) \<Rightarrow> anim_op \<Rightarrow> bool" where
  "empty_load glob (Load glob_path' frame_data') = (glob glob_path' = [] \<and> frame_data' = [])"
| "empty_load glob Update = False"
| "empty_load glob Reset = False"

text \<open>The invariant of the data model: the frame index is a position of the frame list.\<close>

definition index_in_range :: "'s Animation \<Rightarrow> bool" where
  "index_in_range self =
     (case frames self of None \<Rightarrow> False | Some fs \<Rightarrow>
      (case frame_index self of None \<Rightarrow> False | Some i \<Rightarrow> 0 \<le> i \<and> i < int (length fs)))"

text \<open>The state of an animation whose last \<open>load\<close> went through: the invariant, with the
  frame count that of the list and the countdown assigned.\<close>

definition loaded :: "'s Animation \<Rightarrow> bool" where
  "loaded self =
     (case frames self of None \<Rightarrow> False | Some fs \<Rightarrow>
      (case frame_index self of None \<Rightarrow> False | Some i \<Rightarrow>
         0 \<le> i \<and> i < int (length fs) \<and> frame_count self = Some (int (length fs)) \<and>
         frames_until_next self \<noteq> None))"

text \<open>A directory for the examples: one pattern matches three files, any other none.\<close>

definition example_glob :: "string \<Rightarrow> string list" where
  "example_glob pattern =
     (if pattern = ''frames/*'' then [''frames/0.png'', ''frames/1.png'', ''frames/2.png''] else [])"

section \<open>Button\<close>

text \<open>
  What pygame draws is kept as the list of drawing calls made on the surface, in order.
  A font is its text metric (the size \<open>font.render(text, ...).get_size()\<close> reports). A user
  callback is a function on the state of the rest of the application, \<open>'w\<close>; it does not
  touch the button or the screen that holds it, and an exception raised inside a callback
  is outside this model.
\<close>

type_synonym Color = "nat \<times> nat \<times> nat"

type_synonym Point = "int \<times> int"

datatype Rect = Rect (rect_x: int) (rect_y: int) (rect_w: int) (rect_h: int)

text \<open>\<open>pygame.Rect.collidepoint\<close>: the left and top edges are inside, the right and bottom
  edges are not.\<close>

definition collidepoint :: "Rect \<Rightarrow> Point \<Rightarrow> bool" where
  "collidepoint r p =
     (rect_x r \<le> fst p \<and> fst p < rect_x r + rect_w r \<and>
      rect_y r \<le> snd p \<and> snd p < rect_y r + rect_h r)"

definition centerx :: "Rect \<Rightarrow> int" where
  "centerx r = rect_x r + rect_w r div 2"

definition centery :: "Rect \<Rightarrow> int" where
  "centery r = rect_y r + rect_h r div 2"

datatype draw_call =
    Draw_rect Color Rect int int
  | Blit_text string Color "rat \<times> rat"

type_synonym Surface = "draw_call list"

type_synonym Font = "string \<Rightarrow> int \<times> int"

record 'w Button =
  action :: "('w \<Rightarrow> 'w) option"
  button_text :: string
  rect :: Rect
  font :: Font
  rect_color :: Color
  font_color :: Color
  highlight_color :: Color
  rect_line_width :: int
  border_radius :: int
  border_size :: int
  border_color :: Color
  clicked_color :: Color
  clicked :: bool
  highlight :: bool

definition Button_init ::
  "('w \<Rightarrow> 'w) option \<Rightarrow> string \<Rightarrow> Rect \<Rightarrow> Font \<Rightarrow> Color \<Rightarrow> Color option \<Rightarrow> Color \<Rightarrow> int \<Rightarrow> int
     \<Rightarrow> int \<Rightarrow> Color \<Rightarrow> Color \<Rightarrow> 'w Button" where
  "Button_init action' text' rect' font' rect_color' highlight_color' font_color'
       rect_line_width' border_radius' border_size' border_color' clicked_color' =
     \<lparr>action = action',
      button_text = text',
      rect = rect',
      font = font',
      rect_color = rect_color',
      font_color = font_color',
      highlight_color = (case highlight_color' of Some c \<Rightarrow> c | None \<Rightarrow> rect_color'),
      rect_line_width = rect_line_width',
      border_radius = border_radius',
      border_size = border_size',
      border_color = border_color',
      clicked_color = clicked_color',
      clicked = False,
      highlight = False\<rparr>"

text \<open>The color \<open>draw\<close> passes to its first \<open>pygame.draw.rect\<close>.\<close>

definition fill_color :: "'w Button \<Rightarrow> bool option \<Rightarrow> Color" where
  "fill_color self override_highlight =
     (if clicked self then clicked_color self
      else if (override_highlight = None \<and> highlight self) \<or> override_highlight = Some True
           then highlight_color self
      else rect_color self)"

definition Button_draw :: "'w Button \<Rightarrow> Surface \<Rightarrow> bool option \<Rightarrow> 'w Button \<times> Surface" where
  "Button_draw self screen override_highlight =
     (let screen = screen @ [Draw_rect (fill_color self override_highlight) (rect self)
                               (rect_line_width self) (border_radius self)];
          self = self\<lparr>clicked := False\<rparr>;
          screen = (if border_size self > 0
                    then screen @ [Draw_rect (border_color self) (rect self)
                                     (border_size self) (border_radius self)]
                    else screen);
          text_size = font self (button_text self)
      in (self,
          screen @ [Blit_text (button_text self) (font_color self)
                      (of_int (centerx (rect self)) - of_int (fst text_size) / 2,
                       of_int (centery (rect self)) - of_int (snd text_size) / 2)]))"

definition Button_call :: "'w Button \<Rightarrow> 'w \<Rightarrow> 'w Button \<times> 'w" where
  "Button_call self world =
     (let world = (case action self of Some f \<Rightarrow> f world | None \<Rightarrow> world)
      in (self\<lparr>clicked := True\<rparr>, world))"

section \<open>GameScreen and MenuScreen\<close>

text \<open>
  The fields of a screen that are plain values; its pygame surfaces and clock are left out.
  Window sizes and mouse positions are pairs of integers, as pygame reports them.
\<close>

record GameScreen =
  window_scaled :: bool
  real_window_size :: Point
  window_size :: Point
  window_scale :: Point
  frame_rate :: int
  running :: bool
  game_ticks :: int

record 'w MenuScreen = GameScreen +
  buttons :: "'w Button list"
  button_index :: int

definition MenuScreen_init :: "Point \<Rightarrow> Point option \<Rightarrow> int \<Rightarrow> error + 'w MenuScreen" where
  "MenuScreen_init real_window_size' window_size' frame_rate' =
     (let scaled = (window_size' \<noteq> None \<and> window_size' \<noteq> Some real_window_size');
          size = (if scaled then the window_size' else real_window_size')
      in if fst size = 0 \<or> snd size = 0 then Inl ZeroDivisionError
         else Inr \<lparr>window_scaled = scaled,
                   real_window_size = real_window_size',
                   window_size = size,
                   window_scale = (fst real_window_size' div fst size,
                                   snd real_window_size' div snd size),
                   frame_rate = frame_rate',
                   running = False,
                   game_ticks = 0,
                   buttons = [],
                   button_index = 0\<rparr>)"

text \<open>\<open>get_scaled_mouse_pos\<close>, the position \<open>pygame.mouse.get_pos()\<close> reports being a
  parameter.\<close>

definition get_scaled_mouse_pos :: "'w MenuScreen \<Rightarrow> Point \<Rightarrow> error + Point" where
  "get_scaled_mouse_pos self pos =
     (if fst (window_scale self) = 0 \<or> snd (window_scale self) = 0 then Inl ZeroDivisionError
      else Inr (fst pos div fst (window_scale self), snd pos div snd (window_scale self)))"

datatype Key = K_UP | K_DOWN | K_LEFT | K_RIGHT | K_RETURN | K_SPACE | K_OTHER nat

definition key_down :: "'w MenuScreen \<Rightarrow> Key \<Rightarrow> 'w \<Rightarrow> error option \<times> 'w MenuScreen \<times> 'w" where
  "key_down self key world =
     (if key = K_UP \<or> key = K_RIGHT \<or> key = K_DOWN \<or> key = K_LEFT then
        if key = K_DOWN \<or> key = K_RIGHT then
          let self = self\<lparr>button_index := button_index self + 1\<rparr>;
              buttons_length = int (length (buttons self))
          in if button_index self \<ge> buttons_length then
               if buttons_length = 0 then (Some ZeroDivisionError, self, world)
               else (None, self\<lparr>button_index := button_index self mod buttons_length\<rparr>, world)
             else (None, self, world)
        else
          let self = self\<lparr>button_index := button_index self - 1\<rparr>
          in if button_index self < 0 then
               (None, self\<lparr>button_index := int (length (buttons self)) - 1\<rparr>, world)
             else (None, self, world)
      else if key = K_RETURN \<or> key = K_SPACE then
        (case py_position (buttons self) (button_index self) of
           None \<Rightarrow> (Some IndexError, self, world)
         | Some j \<Rightarrow>
            let (button, world) = Button_call (buttons self ! j) world
            in (None, self\<lparr>buttons := (buttons self)[j := button]\<rparr>, world))
      else (None, self, world))"

text \<open>The \<open>for\<close> loop of \<open>mouse_button_down\<close> over \<open>enumerate(self.buttons)\<close>, from position
  \<open>i\<close> on: it gives the button index, the buttons and the application state it ends with.\<close>

primrec press_buttons ::
  "Point \<Rightarrow> nat \<Rightarrow> 'w Button list \<Rightarrow> int \<Rightarrow> 'w \<Rightarrow> int \<times> 'w Button list \<times> 'w" where
  "press_buttons mouse_pos i [] index world = (index, [], world)"
| "press_buttons mouse_pos i (button # rest) index world =
     (if collidepoint (rect button) mouse_pos then
        let index = int i;
            (button, world) = Button_call button world;
            (index, rest, world) = press_buttons mouse_pos (Suc i) rest index world
        in (index, button # rest, world)
      else
        let (index, rest, world) = press_buttons mouse_pos (Suc i) rest index world
        in (index, button # rest, world))"

definition mouse_button_down ::
  "'w MenuScreen \<Rightarrow> int \<Rightarrow> Point \<Rightarrow> 'w \<Rightarrow> error option \<times> 'w MenuScreen \<times> 'w" where
  "mouse_button_down self event_button mouse world =
     (if event_button = 1 then
        (case (if window_scaled self then get_scaled_mouse_pos self mouse else Inr mouse) of
           Inl e \<Rightarrow> (Some e, self, world)
         | Inr mouse_pos \<Rightarrow>
            let (index, bs, world) =
                  press_buttons mouse_pos 0 (buttons self) (button_index self) world
            in (None, self\<lparr>buttons := bs, button_index := index\<rparr>, world))
      else (None, self, world))"

text \<open>A menu for the examples: three buttons, the first two overlapping, each callback
  appending its button's name to a log.\<close>

definition example_button :: "string \<Rightarrow> Rect \<Rightarrow> string list Button" where
  "example_button name r =
     Button_init (Some (\<lambda>log. log @ [name])) name r (\<lambda>text. (8 * int (length text), 16))
       (255, 255, 255) (Some (150, 150, 150)) (0, 0, 0) 0 0 0 (0, 0, 0) (100, 100, 100)"

definition example_menu :: "string list MenuScreen" where
  "example_menu =
     \<lparr>window_scaled = False, real_window_size = (600, 600), window_size = (600, 600),
      window_scale = (1, 1), frame_rate = 30, running = False, game_ticks = 0,
      buttons = [example_button ''play'' (Rect 0 0 100 40),
                 example_button ''options'' (Rect 50 20 100 40),
                 example_button ''quit'' (Rect 0 100 100 40)],
      button_index = 0\<rparr>"

section \<open>Python lists\<close>

lemma py_index_0: "py_index (x # xs) 0 = Some x" "py_index [] i = None"
  by (simp_all add: py_index_def py_position_def)

lemma py_index_in_range:
  "0 \<le> i \<Longrightarrow> i < int (length xs) \<Longrightarrow> py_index xs i = Some (xs ! nat i)"
  by (simp add: py_index_def py_position_def)

section \<open>TrueEvery: the schedule of true results\<close>

lemma mod_period:
  fixes c :: int
  assumes "0 < c" "0 < m"
  shows "(c \<le> m \<and> (m - c) mod c = 0) = (m mod c = 0)"
proof -
  have "(m - c) mod c = m mod c" by (simp add: mod_diff_right_eq [symmetric])
  moreover have "c \<le> m" if "m mod c = 0"
    using that assms by (auto intro: zdvd_imp_le)
  ultimately show ?thesis by auto
qed

lemma steady_call:
  assumes "\<not> first_call s" "\<not> once s" "1 \<le> calls s" "0 < count s"
  shows "fst (TrueEvery_call (after_calls j s)) =
           (if calls s \<le> int j + 1 \<and> (int j + 1 - calls s) mod count s = 0 then Some True else None)"
  using assms
proof (induction j arbitrary: s)
  case 0
  then show ?case by (auto simp: TrueEvery_call_def Let_def)
next
  case (Suc j)
  let ?s' = "snd (TrueEvery_call s)"
  have IH: "fst (TrueEvery_call (after_calls j ?s')) =
           (if calls ?s' \<le> int j + 1 \<and> (int j + 1 - calls ?s') mod count ?s' = 0 then Some True else None)"
    if "\<not> first_call ?s'" "\<not> once ?s'" "1 \<le> calls ?s'" "0 < count ?s'"
    using that by (rule Suc.IH)
  show ?case
  proof (cases "calls s = 1")
    case True
    have s': "\<not> first_call ?s'" "\<not> once ?s'" "calls ?s' = count s" "count ?s' = count s"
      using Suc.prems True by (simp_all add: TrueEvery_call_def Let_def)
    have "fst (TrueEvery_call (after_calls j ?s')) =
           (if count s \<le> int j + 1 \<and> (int j + 1 - count s) mod count s = 0 then Some True else None)"
      using IH s' Suc.prems by simp
    also have "\<dots> = (if (int j + 1) mod count s = 0 then Some True else None)"
      using mod_period [of "count s" "int j + 1"] Suc.prems(4) by simp
    finally show ?thesis using True by (simp add: add.commute)
  next
    case False
    have s': "\<not> first_call ?s'" "\<not> once ?s'" "calls ?s' = calls s - 1" "count ?s' = count s"
      using Suc.prems False by (simp_all add: TrueEvery_call_def Let_def)
    have "fst (TrueEvery_call (after_calls j ?s')) =
           (if calls s - 1 \<le> int j + 1 \<and> (int j + 1 - (calls s - 1)) mod count s = 0 then Some True else None)"
      using IH s' Suc.prems False by simp
    moreover have "int j + 1 - (calls s - 1) = int (Suc j) + 1 - calls s" by simp
    moreover have "(calls s - 1 \<le> int j + 1) = (calls s \<le> int (Suc j) + 1)" by auto
    ultimately show ?thesis by (simp del: of_nat_Suc)
  qed
qed

lemma fresh_first_call:
  "TrueEvery_call (TrueEvery_init cnt oic False 0) =
     (Some True, (TrueEvery_init cnt oic False 0)\<lparr>calls := (case oic of Some ic \<Rightarrow> ic | None \<Rightarrow> cnt), first_call := False\<rparr>)"
  by (simp add: TrueEvery_call_def TrueEvery_init_def Let_def)

lemma fresh_nth_call:
  assumes "0 < cnt" "0 < (case oic of Some ic \<Rightarrow> ic | None \<Rightarrow> cnt)" "0 < k"
  shows "nth_call k (TrueEvery_init cnt oic False 0) =
     (if k = 1 \<or> ((case oic of Some ic \<Rightarrow> ic | None \<Rightarrow> cnt) + 1 \<le> int k \<and>
                   (int k - ((case oic of Some ic \<Rightarrow> ic | None \<Rightarrow> cnt) + 1)) mod cnt = 0)
      then Some True else None)"
proof (cases "k = 1")
  case True
  then show ?thesis by (simp add: nth_call_def fresh_first_call)
next
  case False
  define i where "i = (case oic of Some ic \<Rightarrow> ic | None \<Rightarrow> cnt)"
  define s where "s = snd (TrueEvery_call (TrueEvery_init cnt oic False 0))"
  from False assms(3) obtain j where k: "k = Suc (Suc j)"
    by (metis One_nat_def Suc_pred less_Suc_eq_0_disj not_gr_zero)
  have s: "\<not> first_call s" "\<not> once s" "calls s = i" "count s = cnt"
    unfolding s_def fresh_first_call by (simp_all add: i_def TrueEvery_init_def)
  have "nth_call k (TrueEvery_init cnt oic False 0) = fst (TrueEvery_call (after_calls j s))"
    by (simp add: nth_call_def k s_def)
  also have "\<dots> = (if calls s \<le> int j + 1 \<and> (int j + 1 - calls s) mod count s = 0 then Some True else None)"
    using s assms by (intro steady_call) (simp_all add: i_def)
  also have "\<dots> = (if i + 1 \<le> int k \<and> (int k - (i + 1)) mod cnt = 0 then Some True else None)"
  proof -
    have e: "int j + 1 - i = int k - (i + 1)" by (simp add: k)
    have "(i \<le> int j + 1) = (i + 1 \<le> int k)" by (auto simp: k)
    then show ?thesis unfolding s e by simp
  qed
  finally show ?thesis using False by (simp add: i_def)
qed

lemma call_results_nth: "k < n \<Longrightarrow> call_results n s ! k = nth_call (Suc k) s"
proof (induction n arbitrary: s k)
  case 0
  then show ?case by simp
next
  case (Suc n)
  then show ?case by (cases k) (simp_all add: nth_call_def)
qed

lemma length_call_results: "length (call_results n s) = n"
  by (induction n arbitrary: s) simp_all

lemma spent_once:
  "\<not> first_call s \<Longrightarrow> once s \<Longrightarrow> filter (\<lambda>r. r = Some True) (call_results n s) = []"
  by (induction n) (simp_all add: TrueEvery_call_def)

lemma once_at_most_one:
  "once s \<Longrightarrow> length (filter (\<lambda>r. r = Some True) (call_results n s)) \<le> 1"
proof (induction n arbitrary: s)
  case 0
  then show ?case by simp
next
  case (Suc n)
  let ?s' = "snd (TrueEvery_call s)"
  have o: "once ?s'" using Suc.prems by (simp add: TrueEvery_call_def Let_def)
  show ?case
  proof (cases "fst (TrueEvery_call s) = Some True")
    case True
    then have "\<not> first_call ?s'"
      by (auto simp: TrueEvery_call_def Let_def split: if_splits)
    then show ?thesis using o True by (simp add: spent_once)
  next
    case False
    then show ?thesis using Suc.IH [OF o] by simp
  qed
qed

text \<open>
  Claim C2, as amended. For every \<open>count > 0\<close>, a fresh TrueEvery with default arguments
  returns True on call number \<open>k\<close> exactly when \<open>k - 1\<close> is a multiple of \<open>count\<close> (calls 1,
  count+1, 2*count+1, ...) and Python's None on every other call. With an \<open>initial_count > 0\<close>
  supplied, it returns True exactly on call 1 and on the calls \<open>initial_count + 1 + j * count\<close>,
  and None on every other call.
\<close>

theorem TrueEvery_schedule:
  assumes "0 < cnt" "0 < ic" "0 < k"
  shows "nth_call k (TrueEvery_init cnt None False 0) =
           (if (int k - 1) mod cnt = 0 then Some True else None) \<and>
         nth_call k (TrueEvery_init cnt (Some ic) False 0) =
           (if k = 1 \<or> (ic + 1 \<le> int k \<and> (int k - (ic + 1)) mod cnt = 0)
            then Some True else None)"
proof
  have "nth_call k (TrueEvery_init cnt None False 0) =
          (if k = 1 \<or> (cnt + 1 \<le> int k \<and> (int k - (cnt + 1)) mod cnt = 0)
           then Some True else None)"
    using fresh_nth_call [of cnt None k] assms by simp
  moreover have "(k = 1 \<or> (cnt + 1 \<le> int k \<and> (int k - (cnt + 1)) mod cnt = 0)) =
                 ((int k - 1) mod cnt = 0)"
  proof (cases "k = 1")
    case True
    then show ?thesis by simp
  next
    case False
    with assms(3) have "0 < int k - 1" by simp
    with assms(1)
    have "(cnt \<le> int k - 1 \<and> (int k - 1 - cnt) mod cnt = 0) = ((int k - 1) mod cnt = 0)"
      by (rule mod_period)
    moreover have "int k - 1 - cnt = int k - (cnt + 1)" by simp
    moreover have "(cnt \<le> int k - 1) = (cnt + 1 \<le> int k)" by auto
    ultimately show ?thesis using False by simp
  qed
  ultimately show "nth_call k (TrueEvery_init cnt None False 0) =
      (if (int k - 1) mod cnt = 0 then Some True else None)"
    by simp
next
  show "nth_call k (TrueEvery_init cnt (Some ic) False 0) =
      (if k = 1 \<or> (ic + 1 \<le> int k \<and> (int k - (ic + 1)) mod cnt = 0)
       then Some True else None)"
    using fresh_nth_call [of cnt "Some ic" k] assms by simp
qed

theorem TrueEvery_schedule_witness:
  "(0::int) < 3 \<and> (0::int) < 5 \<and> (0::nat) < 6 \<and>
   nth_call 6 (TrueEvery_init 3 None False 0) = None \<and>
   nth_call 6 (TrueEvery_init 3 (Some 5) False 0) = Some True"
  using TrueEvery_schedule [of 3 5 6] by simp

text \<open>
  Claim C2 as it is written fails for an \<open>initial_count\<close> that is not positive: with
  \<open>count = 2\<close> and \<open>initial_count = 0\<close> the claimed calls are 1, 1, 3, 5, ..., but the second
  call returns True.
\<close>

theorem TrueEvery_schedule_counterexample:
  "nth_call 2 (TrueEvery_init 2 (Some 0) False 0) = Some True \<and>
   nth_call 2 (TrueEvery_init 2 (Some 0) False 0) \<noteq>
     (if (2::nat) = 1 \<or> ((0::int) + 1 \<le> int 2 \<and> (int 2 - (0 + 1)) mod 2 = 0)
      then Some True else None)"
  by (simp add: nth_call_def TrueEvery_call_def TrueEvery_init_def Let_def)

text \<open>
  Claim C5. A TrueEvery constructed with \<open>once = True\<close>, whatever its other arguments,
  returns True on at most one of any number of successive calls.
\<close>

theorem TrueEvery_once_at_most_once:
  "length (filter (\<lambda>r. r = Some True) (call_results n (TrueEvery_init cnt ic True start))) \<le> 1"
  by (rule once_at_most_one) (simp add: TrueEvery_init_def)

section \<open>Animation: construction, update, reset, load\<close>

lemma load_mismatch:
  "length (glob gp) \<noteq> length fd \<Longrightarrow> load glob ld gp fd self = (Some ValueError, self)"
  by (simp add: load_def)

lemma load_three:
  assumes "glob gp = [f1, f2, f3]"
  shows "load glob ld gp [d1, d2, d3] self =
     (None, self\<lparr>frames := Some [(ld f1, d1), (ld f2, d2), (ld f3, d3)],
                 frame_count := Some 3, frame_index := Some 0, frames_until_next := Some d1\<rparr>)"
  using assms by (simp add: load_def enumerate_eq_zip upt_rec py_index_0 Let_def)

lemma finished_updates: "finished a \<Longrightarrow> updates n a = (None, a)"
  by (induction n) (simp_all add: update_def)

lemma updates_add: "updates m a = (None, a') \<Longrightarrow> updates (m + n) a = updates n a'"
proof (induction m arbitrary: a)
  case 0
  then show ?case by simp
next
  case (Suc m)
  then show ?case by (cases "update a") (auto split: option.splits)
qed

lemma loaded_init:
  assumes "Animation_init glob ld gp fd r = (None, a)"
  shows "loaded a"
proof (cases "length (glob gp) = length fd")
  case False
  with assms show ?thesis by (simp add: Animation_init_def load_def)
next
  case True
  show ?thesis
  proof (cases "glob gp")
    case Nil
    with assms True show ?thesis by (simp add: Animation_init_def load_def py_index_0)
  next
    case (Cons f fns)
    with assms True show ?thesis
      by (auto simp: Animation_init_def load_def Let_def loaded_def split: option.splits)
  qed
qed

lemma loaded_load:
  assumes "\<not> (glob gp = [] \<and> fd = [])" "loaded a"
  shows "loaded (snd (load glob ld gp fd a))"
proof (cases "length (glob gp) = length fd")
  case False
  with assms show ?thesis by (simp add: load_def)
next
  case True
  with assms(1) obtain f fns where "glob gp = f # fns" by (cases "glob gp") auto
  with True show ?thesis
    by (auto simp: load_def Let_def loaded_def py_index_0 split: option.splits)
qed

lemma loaded_first_frame: "loaded a \<Longrightarrow> \<exists>f fs. frames a = Some (f # fs)"
  by (cases "frames a"; cases "the (frames a)") (auto simp: loaded_def split: option.splits)

lemma loaded_reset:
  assumes "loaded a"
  shows "loaded (snd (reset a)) \<and> fst (reset a) = None"
proof -
  from assms obtain f fs where "frames a = Some (f # fs)"
    using loaded_first_frame by blast
  with assms show ?thesis
    by (auto simp: reset_def loaded_def Let_def py_index_0 split: option.splits)
qed

lemma loaded_update: "loaded a \<Longrightarrow> loaded (snd (update a)) \<and> fst (update a) = None"
  by (auto simp: update_def loaded_def Let_def py_index_in_range split: option.splits)

lemma loaded_run_ops:
  "loaded a \<Longrightarrow> \<forall>operation \<in> set ops. \<not> empty_load glob operation
     \<Longrightarrow> loaded (run_ops glob ld ops a)"
proof (induction ops arbitrary: a)
  case Nil
  then show ?case by simp
next
  case (Cons operation ops)
  have "loaded (snd (apply_op glob ld operation a))"
  proof (cases operation)
    case Update
    then show ?thesis using Cons.prems(1) by (simp add: apply_op_def loaded_update)
  next
    case Reset
    then show ?thesis using Cons.prems(1) by (simp add: apply_op_def loaded_reset)
  next
    case (Load p d)
    then show ?thesis using Cons.prems by (simp add: apply_op_def loaded_load)
  qed
  then show ?case using Cons by simp
qed

lemma loaded_get_surface:
  "loaded a \<Longrightarrow> index_in_range a \<and> (\<exists>image. get_surface a = Inr image)"
  by (auto simp: loaded_def index_in_range_def get_surface_def py_index_in_range split: option.splits)

lemma update_step:
  "update \<lparr>glob_path = gp, frame_data = fd, repititions = r, finished = False,
           frames = Some fs, frame_count = Some c, frame_index = Some i,
           frames_until_next = Some n\<rparr> =
     (if n - 1 = 0 then
        (if c = 0 then (Some ZeroDivisionError, \<lparr>glob_path = gp, frame_data = fd, repititions = r, finished = False,
           frames = Some fs, frame_count = Some c, frame_index = Some i,
           frames_until_next = Some (n - 1)\<rparr>)
         else case py_index fs ((i + 1) mod c) of
           None \<Rightarrow> (Some IndexError, \<lparr>glob_path = gp, frame_data = fd, repititions = r, finished = False,
             frames = Some fs, frame_count = Some c, frame_index = Some ((i + 1) mod c),
             frames_until_next = Some (n - 1)\<rparr>)
         | Some frame \<Rightarrow>
             if (i + 1) mod c = 0 \<and> r \<noteq> None then
               (None, \<lparr>glob_path = gp, frame_data = fd, repititions = Some (the r - 1), finished = (the r - 1 = 0),
                 frames = Some fs, frame_count = Some c, frame_index = Some ((i + 1) mod c),
                 frames_until_next = Some (n - 1 + snd frame)\<rparr>)
             else (None, \<lparr>glob_path = gp, frame_data = fd, repititions = r, finished = False,
                 frames = Some fs, frame_count = Some c, frame_index = Some ((i + 1) mod c),
                 frames_until_next = Some (n - 1 + snd frame)\<rparr>))
      else (None, \<lparr>glob_path = gp, frame_data = fd, repititions = r, finished = False,
           frames = Some fs, frame_count = Some c, frame_index = Some i,
           frames_until_next = Some (n - 1)\<rparr>))"
  by (auto simp: update_def Let_def split: option.splits)

lemma init_three:
  assumes "glob gp = [f1, f2, f3]"
  shows "Animation_init glob ld gp [2, 3, 4] (Some 2) =
     (None, \<lparr>glob_path = gp, frame_data = [2, 3, 4], repititions = Some 2, finished = False,
             frames = Some [(ld f1, 2), (ld f2, 3), (ld f3, 4)], frame_count = Some 3,
             frame_index = Some 0, frames_until_next = Some 2\<rparr>)"
  using assms by (simp add: Animation_init_def load_three)

lemma py_index_three:
  "py_index [a, b, c] 0 = Some a" "py_index [a, b, c] 1 = Some b" "py_index [a, b, c] 2 = Some c"
  by (simp_all add: py_index_def py_position_def)

lemma first_loop:
  assumes "glob gp = [f1, f2, f3]"
  shows "updates 8 (snd (Animation_init glob ld gp [2, 3, 4] (Some 2))) =
     (None, \<lparr>glob_path = gp, frame_data = [2, 3, 4], repititions = Some 2, finished = False,
             frames = Some [(ld f1, 2), (ld f2, 3), (ld f3, 4)], frame_count = Some 3,
             frame_index = Some 2, frames_until_next = Some 1\<rparr>)"
  by (simp add: init_three [of glob gp, OF assms] eval_nat_numeral update_step py_index_three)

lemma second_loop:
  assumes "glob gp = [f1, f2, f3]"
  shows "updates 9 (snd (Animation_init glob ld gp [2, 3, 4] (Some 2))) =
     (None, \<lparr>glob_path = gp, frame_data = [2, 3, 4], repititions = Some 1, finished = False,
             frames = Some [(ld f1, 2), (ld f2, 3), (ld f3, 4)], frame_count = Some 3,
             frame_index = Some 0, frames_until_next = Some 2\<rparr>)"
  using updates_add [OF first_loop [of glob gp, OF assms], of 1 ld]
  by (simp add: update_step py_index_three)

lemma last_tick:
  assumes "glob gp = [f1, f2, f3]"
  shows "updates 17 (snd (Animation_init glob ld gp [2, 3, 4] (Some 2))) =
     (None, \<lparr>glob_path = gp, frame_data = [2, 3, 4], repititions = Some 1, finished = False,
             frames = Some [(ld f1, 2), (ld f2, 3), (ld f3, 4)], frame_count = Some 3,
             frame_index = Some 2, frames_until_next = Some 1\<rparr>)"
  using updates_add [OF second_loop [of glob gp, OF assms], of 8 ld]
  by (simp add: eval_nat_numeral update_step py_index_three)

lemma both_loops:
  assumes "glob gp = [f1, f2, f3]"
  shows "updates 18 (snd (Animation_init glob ld gp [2, 3, 4] (Some 2))) =
     (None, \<lparr>glob_path = gp, frame_data = [2, 3, 4], repititions = Some 0, finished = True,
             frames = Some [(ld f1, 2), (ld f2, 3), (ld f3, 4)], frame_count = Some 3,
             frame_index = Some 0, frames_until_next = Some 2\<rparr>)"
  using updates_add [OF last_tick [of glob gp, OF assms], of 1 ld]
  by (simp add: update_step py_index_three)

text \<open>
  Claim C1. An Animation built from three files with durations \<open>[2, 3, 4]\<close> and two
  repetitions: construction succeeds; after 8 updates it shows the last frame with both
  repetitions left, after exactly 9 the frame index is back at 0 and one repetition is left;
  after 17 updates it is not finished, after 18 it is; and every later update returns the
  object as it was after the 18th.
\<close>

theorem Animation_two_repetitions:
  fixes glob :: "string \<Rightarrow> string list" and ld :: "string \<Rightarrow> 's"
  assumes "glob gp = [f1, f2, f3]"
  defines "start \<equiv> snd (Animation_init glob ld gp [2, 3, 4] (Some 2))"
  shows "fst (Animation_init glob ld gp [2, 3, 4] (Some 2)) = None \<and>
         fst (updates 8 start) = None \<and>
         frame_index (snd (updates 8 start)) = Some 2 \<and>
         repititions (snd (updates 8 start)) = Some 2 \<and>
         fst (updates 9 start) = None \<and>
         frame_index (snd (updates 9 start)) = Some 0 \<and>
         repititions (snd (updates 9 start)) = Some 1 \<and>
         \<not> finished (snd (updates 9 start)) \<and>
         fst (updates 17 start) = None \<and>
         \<not> finished (snd (updates 17 start)) \<and>
         fst (updates 18 start) = None \<and>
         finished (snd (updates 18 start)) \<and>
         (\<forall>n. updates (18 + n) start = updates 18 start) \<and>
         update (snd (updates 18 start)) = (None, snd (updates 18 start))"
proof -
  note a = init_three [of glob gp, OF assms(1), of ld]
  note a8 = first_loop [of glob gp, OF assms(1), of ld]
  note a9 = second_loop [of glob gp, OF assms(1), of ld]
  note a17 = last_tick [of glob gp, OF assms(1), of ld]
  note a18 = both_loops [of glob gp, OF assms(1), of ld]
  have "updates (18 + n) start = updates 18 start" for n
    unfolding start_def updates_add [OF a18] a18 by (simp add: finished_updates)
  then show ?thesis
    unfolding start_def a8 a9 a17 a18 by (simp add: a update_def)
qed

theorem Animation_two_repetitions_witness:
  "example_glob ''frames/*'' = [''frames/0.png'', ''frames/1.png'', ''frames/2.png''] \<and>
   frame_index (snd (updates 9 (snd (Animation_init example_glob id ''frames/*'' [2, 3, 4] (Some 2))))) = Some 0 \<and>
   repititions (snd (updates 9 (snd (Animation_init example_glob id ''frames/*'' [2, 3, 4] (Some 2))))) = Some 1 \<and>
   finished (snd (updates 18 (snd (Animation_init example_glob id ''frames/*'' [2, 3, 4] (Some 2)))))"
  using Animation_two_repetitions [of example_glob "''frames/*''" "''frames/0.png''" "''frames/1.png''" "''frames/2.png''" id]
  by (simp add: example_glob_def)

text \<open>
  Claim C4. When the number of files the pattern matches differs from the number of
  durations, the constructor raises ValueError and the object it abandons has no frame list,
  no frame count, no frame index and no countdown, so that nothing can be drawn from it; a
  \<open>load\<close> with such arguments on an existing animation raises ValueError and changes nothing.
\<close>

theorem Animation_init_mismatch:
  assumes "length (glob gp) \<noteq> length fd"
  shows "fst (Animation_init glob ld gp fd r) = Some ValueError \<and>
         frames (snd (Animation_init glob ld gp fd r)) = None \<and>
         frame_count (snd (Animation_init glob ld gp fd r)) = None \<and>
         frame_index (snd (Animation_init glob ld gp fd r)) = None \<and>
         frames_until_next (snd (Animation_init glob ld gp fd r)) = None \<and>
         get_surface (snd (Animation_init glob ld gp fd r)) = Inl AttributeError \<and>
         load glob ld gp fd a = (Some ValueError, a)"
  using assms by (simp add: Animation_init_def load_mismatch get_surface_def)

theorem Animation_init_mismatch_witness:
  "length (example_glob ''frames/*'') \<noteq> length [2, 3 :: int] \<and>
   fst (Animation_init example_glob id ''frames/*'' [2, 3] None) = Some ValueError \<and>
   frames (snd (Animation_init example_glob id ''frames/*'' [2, 3] None)) = None \<and>
   frame_index (snd (Animation_init example_glob id ''frames/*'' [2, 3] None)) = None \<and>
   frames_until_next (snd (Animation_init example_glob id ''frames/*'' [2, 3] None)) = None"
  using Animation_init_mismatch [of example_glob "''frames/*''" "[2, 3]" id None]
  by (simp add: example_glob_def)

text \<open>
  Claim C6, as amended. After a successful construction and then any sequence of \<open>update\<close>,
  \<open>reset\<close> and \<open>load\<close> calls, failed ones included, in which no \<open>load\<close> is given both a
  pattern that matches no file and an empty duration list, the frame index is a position of
  the frame list and \<open>get_surface\<close> returns a surface.
\<close>

theorem Animation_index_in_range:
  assumes "Animation_init glob ld gp fd r = (None, a)"
    and "\<forall>operation \<in> set ops. \<not> empty_load glob operation"
  shows "index_in_range (run_ops glob ld ops a) \<and>
         (\<exists>image. get_surface (run_ops glob ld ops a) = Inr image)"
  using assms by (intro loaded_get_surface loaded_run_ops loaded_init)

theorem Animation_index_in_range_witness:
  "Animation_init example_glob id ''frames/*'' [2, 3, 4] (Some 2) =
     (None, snd (Animation_init example_glob id ''frames/*'' [2, 3, 4] (Some 2))) \<and>
   list_all (\<lambda>operation. \<not> empty_load example_glob operation)
     [Update, Update, Reset, Load ''frames/*'' [5, 6], Load ''frames/*'' [1, 1, 1], Update] \<and>
   index_in_range (run_ops example_glob id [Update, Update, Reset, Load ''frames/*'' [5, 6], Load ''frames/*'' [1, 1, 1], Update]
       (snd (Animation_init example_glob id ''frames/*'' [2, 3, 4] (Some 2)))) \<and>
   get_surface (run_ops example_glob id [Update, Update, Reset, Load ''frames/*'' [5, 6], Load ''frames/*'' [1, 1, 1], Update]
       (snd (Animation_init example_glob id ''frames/*'' [2, 3, 4] (Some 2)))) = Inr ''frames/1.png''"
proof -
  have i: "Animation_init example_glob id ''frames/*'' [2, 3, 4] (Some 2) =
     (None, snd (Animation_init example_glob id ''frames/*'' [2, 3, 4] (Some 2)))"
    by (simp add: Animation_init_def load_def example_glob_def enumerate_eq_zip upt_rec py_index_0)
  have o: "\<forall>operation \<in> set [Update, Update, Reset, Load ''frames/*'' [5, 6], Load ''frames/*'' [1, 1, 1], Update].
       \<not> empty_load example_glob operation"
    by (simp add: example_glob_def)
  have g: "get_surface (run_ops example_glob id [Update, Update, Reset, Load ''frames/*'' [5, 6], Load ''frames/*'' [1, 1, 1], Update]
       (snd (Animation_init example_glob id ''frames/*'' [2, 3, 4] (Some 2)))) = Inr ''frames/1.png''"
    by code_simp
  show ?thesis using Animation_index_in_range [OF i o] i o g by (simp add: list_all_iff)
qed

text \<open>
  Claim C6 as it is written fails for \<open>load\<close>: on a constructed animation, a \<open>load\<close> whose
  pattern matches no file, with no duration, installs the empty frame list and index 0 and
  then raises IndexError at \<open>self.frames[0]\<close>; the object is left with an index that is not a
  position of its frame list, and \<open>get_surface\<close> indexes out of range.
\<close>

theorem Animation_index_in_range_counterexample:
  "fst (Animation_init example_glob id ''frames/*'' [2, 3, 4] None) = None \<and>
   fst (load example_glob id ''none/*'' [] (snd (Animation_init example_glob id ''frames/*'' [2, 3, 4] None)))
     = Some IndexError \<and>
   frames (run_ops example_glob id [Load ''none/*'' []]
             (snd (Animation_init example_glob id ''frames/*'' [2, 3, 4] None))) = Some [] \<and>
   frame_index (run_ops example_glob id [Load ''none/*'' []]
             (snd (Animation_init example_glob id ''frames/*'' [2, 3, 4] None))) = Some 0 \<and>
   \<not> index_in_range (run_ops example_glob id [Load ''none/*'' []]
             (snd (Animation_init example_glob id ''frames/*'' [2, 3, 4] None))) \<and>
   get_surface (run_ops example_glob id [Load ''none/*'' []]
             (snd (Animation_init example_glob id ''frames/*'' [2, 3, 4] None))) = Inl IndexError"
  by (simp add: Animation_init_def load_def example_glob_def enumerate_eq_zip upt_rec py_index_0
        apply_op_def index_in_range_def get_surface_def)

text \<open>
  Claim C7. \<open>reset\<close> sets the frame index to 0 and leaves the path, the durations, the
  repetition count, \<open>finished\<close>, the frame list and the frame count as they were, whatever
  the state; where there is a first frame, it returns normally and the object is the old one
  with index 0 and the countdown at the first frame's duration, nothing else changed.
\<close>

theorem reset_frame:
  "glob_path (snd (reset a)) = glob_path a \<and>
   frame_data (snd (reset a)) = frame_data a \<and>
   repititions (snd (reset a)) = repititions a \<and>
   finished (snd (reset a)) = finished a \<and>
   frames (snd (reset a)) = frames a \<and>
   frame_count (snd (reset a)) = frame_count a \<and>
   frame_index (snd (reset a)) = Some 0 \<and>
   (\<forall>frame rest. frames a = Some (frame # rest) \<longrightarrow>
      reset a = (None, a\<lparr>frame_index := Some 0, frames_until_next := Some (snd frame)\<rparr>))"
  by (auto simp: reset_def Let_def py_index_0 split: option.splits)

theorem reset_frame_witness:
  "frames \<lparr>glob_path = ''frames/*'', frame_data = [2, 3], repititions = Some 0, finished = True,
      frames = Some [(''a'', 2), (''b'', 3)], frame_count = Some 2, frame_index = Some 1,
      frames_until_next = Some 3\<rparr> = Some ((''a'', 2) # [(''b'', 3)]) \<and>
   reset \<lparr>glob_path = ''frames/*'', frame_data = [2, 3], repititions = Some 0, finished = True,
      frames = Some [(''a'', 2), (''b'', 3)], frame_count = Some 2, frame_index = Some 1,
      frames_until_next = Some 3\<rparr> =
    (None, \<lparr>glob_path = ''frames/*'', frame_data = [2, 3], repititions = Some 0, finished = True,
      frames = Some [(''a'', 2), (''b'', 3)], frame_count = Some 2, frame_index = Some 0,
      frames_until_next = Some 2\<rparr>)"
  using reset_frame [of "\<lparr>glob_path = ''frames/*'', frame_data = [2, 3], repititions = Some 0, finished = True,
      frames = Some [(''a'', 2), (''b'', 3)], frame_count = Some 2, frame_index = Some 1,
      frames_until_next = Some 3\<rparr>"]
  by simp


section \<open>Button: the clicked flag\<close>

text \<open>
  Claim C8. Calling a button leaves \<open>clicked\<close> true; the next \<open>draw\<close> fills the rectangle
  with the clicked color and leaves \<open>clicked\<close> false, as every \<open>draw\<close> does; so the draw
  after that one chooses between the highlight and the plain color only.
\<close>

theorem Button_clicked_one_frame:
  "clicked (fst (Button_call b w)) \<and>
   snd (Button_draw (fst (Button_call b w)) screen oh) ! length screen =
     Draw_rect (clicked_color b) (rect b) (rect_line_width b) (border_radius b) \<and>
   \<not> clicked (fst (Button_draw b screen oh)) \<and>
   \<not> clicked (fst (Button_draw (fst (Button_call b w)) screen oh)) \<and>
   fill_color (fst (Button_draw (fst (Button_call b w)) screen oh)) oh' =
     (if (oh' = None \<and> highlight b) \<or> oh' = Some True then highlight_color b else rect_color b)"
  by (simp add: Button_call_def Button_draw_def fill_color_def Let_def nth_append)

section \<open>MenuScreen: mouse and keyboard\<close>

lemma example_menu_init:
  "MenuScreen_init (600, 600) None 30 = Inr (example_menu\<lparr>buttons := []\<rparr>)"
  by (simp add: MenuScreen_init_def example_menu_def Let_def)

lemma press_buttons_all:
  "press_buttons pos i bs index w =
     ((case filter (\<lambda>(j, b). collidepoint (rect b) pos) (enumerate i bs) of
         [] \<Rightarrow> index | hit # hits \<Rightarrow> int (fst (last (hit # hits)))),
      map (\<lambda>b. if collidepoint (rect b) pos then b\<lparr>clicked := True\<rparr> else b) bs,
      fold (\<lambda>b w. snd (Button_call b w)) (filter (\<lambda>b. collidepoint (rect b) pos) bs) w)"
proof (induction bs arbitrary: i index w)
  case Nil
  then show ?case by simp
next
  case (Cons b bs)
  show ?case
    by (simp add: Cons.IH Button_call_def Let_def split: list.splits)
qed

text \<open>
  Claim C3, as amended. On a press of mouse button 1, at the position the screen reads
  (scaled or not), every button whose rect contains the position is activated once, in list
  order: its callback runs and its \<open>clicked\<close> flag is set; no other button changes; and the
  button index ends as the position of the last colliding button, or unchanged when none
  collides.
\<close>

theorem mouse_button_down_every_colliding:
  assumes "(if window_scaled m then get_scaled_mouse_pos m mouse else Inr mouse) = Inr pos"
  shows "mouse_button_down m 1 mouse w =
     (None,
      m\<lparr>buttons := map (\<lambda>b. if collidepoint (rect b) pos then b\<lparr>clicked := True\<rparr> else b)
                      (buttons m),
        button_index :=
          (case filter (\<lambda>(j, b). collidepoint (rect b) pos) (enumerate 0 (buttons m)) of
             [] \<Rightarrow> button_index m
           | hit # hits \<Rightarrow> int (fst (last (hit # hits))))\<rparr>,
      fold (\<lambda>b w. snd (Button_call b w))
        (filter (\<lambda>b. collidepoint (rect b) pos) (buttons m)) w)"
  using assms by (simp add: mouse_button_down_def press_buttons_all)

theorem mouse_button_down_every_colliding_witness:
  "(if window_scaled example_menu then get_scaled_mouse_pos example_menu (60, 30) else Inr (60, 30))
     = Inr (60, 30) \<and>
   button_index (fst (snd (mouse_button_down example_menu 1 (60, 30) []))) = 1 \<and>
   map clicked (buttons (fst (snd (mouse_button_down example_menu 1 (60, 30) [])))) =
     [True, True, False] \<and>
   snd (snd (mouse_button_down example_menu 1 (60, 30) [])) = [''play'', ''options'']"
  using mouse_button_down_every_colliding [of example_menu "(60, 30)" "(60, 30)" "[]"]
  by (simp add: example_menu_def example_button_def Button_init_def collidepoint_def
        Button_call_def enumerate_eq_zip upt_rec)

text \<open>
  Claim C3 as it is written fails: the loop has no \<open>break\<close>. In the example menu the point
  \<open>(60, 30)\<close> lies in the first two buttons; after the press the button index is not 0, the
  second button is clicked too, and both callbacks have run.
\<close>

theorem mouse_button_down_first_match_counterexample:
  "collidepoint (rect (buttons example_menu ! 0)) (60, 30) \<and>
   collidepoint (rect (buttons example_menu ! 1)) (60, 30) \<and>
   fst (mouse_button_down example_menu 1 (60, 30) []) = None \<and>
   button_index (fst (snd (mouse_button_down example_menu 1 (60, 30) []))) \<noteq> 0 \<and>
   clicked (buttons (fst (snd (mouse_button_down example_menu 1 (60, 30) []))) ! 1) \<and>
   snd (snd (mouse_button_down example_menu 1 (60, 30) [])) \<noteq> [''play'']"
  by (simp add: example_menu_def example_button_def Button_init_def collidepoint_def
        Button_call_def mouse_button_down_def Let_def)

text \<open>
  Claim C9. With a non-empty button list of length \<open>n\<close>, up or left at index 0 sets the
  index to \<open>n - 1\<close>, and down or right at index \<open>n - 1\<close> sets it to 0, with no exception and
  nothing else changed.
\<close>

theorem key_down_wraparound:
  assumes "buttons m \<noteq> []"
  shows "(button_index m = 0 \<longrightarrow>
            key_down m K_UP w = (None, m\<lparr>button_index := int (length (buttons m)) - 1\<rparr>, w) \<and>
            key_down m K_LEFT w = (None, m\<lparr>button_index := int (length (buttons m)) - 1\<rparr>, w)) \<and>
         (button_index m = int (length (buttons m)) - 1 \<longrightarrow>
            key_down m K_DOWN w = (None, m\<lparr>button_index := 0\<rparr>, w) \<and>
            key_down m K_RIGHT w = (None, m\<lparr>button_index := 0\<rparr>, w))"
  using assms by (simp add: key_down_def Let_def)

theorem key_down_wraparound_witness:
  "buttons example_menu \<noteq> [] \<and> length (buttons example_menu) = 3 \<and>
   button_index example_menu = 0 \<and>
   button_index (fst (snd (key_down example_menu K_UP []))) = 2 \<and>
   button_index (fst (snd (key_down example_menu K_LEFT []))) = 2 \<and>
   button_index (example_menu\<lparr>button_index := 2\<rparr>) = int (length (buttons example_menu)) - 1 \<and>
   button_index (fst (snd (key_down (example_menu\<lparr>button_index := 2\<rparr>) K_DOWN []))) = 0 \<and>
   button_index (fst (snd (key_down (example_menu\<lparr>button_index := 2\<rparr>) K_RIGHT []))) = 0"
  using key_down_wraparound [of example_menu "[]"]
        key_down_wraparound [of "example_menu\<lparr>button_index := 2\<rparr>" "[]"]
  by (simp add: example_menu_def)

text \<open>
  Claim C10, as amended. With a non-empty button list and a button index that is a position
  of it, \<open>key_down\<close> on any key returns normally, keeps the number of buttons and leaves the
  index a position of the list. A MenuScreen as its constructor leaves it has no button and
  index 0; there, down and right raise ZeroDivisionError and return and space raise
  IndexError.
\<close>

theorem key_down_safe:
  "(buttons m \<noteq> [] \<and> 0 \<le> button_index m \<and> button_index m < int (length (buttons m)) \<longrightarrow>
      fst (key_down m key w) = None \<and>
      length (buttons (fst (snd (key_down m key w)))) = length (buttons m) \<and>
      0 \<le> button_index (fst (snd (key_down m key w))) \<and>
      button_index (fst (snd (key_down m key w))) < int (length (buttons m))) \<and>
   (MenuScreen_init real_size win_size rate = Inr m \<longrightarrow>
      buttons m = [] \<and> button_index m = 0 \<and>
      fst (key_down m K_DOWN w) = Some ZeroDivisionError \<and>
      fst (key_down m K_RIGHT w) = Some ZeroDivisionError \<and>
      fst (key_down m K_RETURN w) = Some IndexError \<and>
      fst (key_down m K_SPACE w) = Some IndexError)"
proof (intro conjI impI)
  assume "MenuScreen_init real_size win_size rate = Inr m"
  then have e: "buttons m = []" "button_index m = 0"
    by (auto simp: MenuScreen_init_def Let_def split: if_splits)
  then show "buttons m = []" "button_index m = 0"
    "fst (key_down m K_DOWN w) = Some ZeroDivisionError"
    "fst (key_down m K_RIGHT w) = Some ZeroDivisionError"
    "fst (key_down m K_RETURN w) = Some IndexError"
    "fst (key_down m K_SPACE w) = Some IndexError"
    by (simp_all add: key_down_def Let_def py_position_def)
next
  assume a: "buttons m \<noteq> [] \<and> 0 \<le> button_index m \<and> button_index m < int (length (buttons m))"
  then have p: "py_position (buttons m) (button_index m) = Some (nat (button_index m))"
    by (simp add: py_position_def)
  show "fst (key_down m key w) = None"
    using a p by (simp add: key_down_def Let_def split: prod.splits)
  show "length (buttons (fst (snd (key_down m key w)))) = length (buttons m)"
    using a p by (simp add: key_down_def Let_def split: prod.splits)
  show "0 \<le> button_index (fst (snd (key_down m key w)))"
    using a p by (simp add: key_down_def Let_def split: prod.splits)
  show "button_index (fst (snd (key_down m key w))) < int (length (buttons m))"
    using a p by (auto simp: key_down_def Let_def split: prod.splits)
qed

theorem key_down_safe_witness:
  "buttons (example_menu\<lparr>button_index := 2\<rparr>) \<noteq> [] \<and>
   0 \<le> button_index (example_menu\<lparr>button_index := 2\<rparr>) \<and>
   button_index (example_menu\<lparr>button_index := 2\<rparr>) < int (length (buttons (example_menu\<lparr>button_index := 2\<rparr>))) \<and>
   fst (key_down (example_menu\<lparr>button_index := 2\<rparr>) K_RETURN []) = None \<and>
   button_index (fst (snd (key_down (example_menu\<lparr>button_index := 2\<rparr>) K_RETURN []))) < 3 \<and>
   MenuScreen_init (600, 600) None 30 = Inr (example_menu\<lparr>buttons := []\<rparr>) \<and>
   fst (key_down (example_menu\<lparr>buttons := []\<rparr>) K_DOWN []) = Some ZeroDivisionError \<and>
   fst (key_down (example_menu\<lparr>buttons := []\<rparr>) K_RETURN []) = Some IndexError"
  using key_down_safe [of "example_menu\<lparr>button_index := 2\<rparr>" K_RETURN "[]" "(600, 600)" None 30]
        key_down_safe [of "example_menu\<lparr>buttons := []\<rparr>" K_DOWN "[]" "(600, 600)" None 30]
        example_menu_init
  by (simp add: example_menu_def)

text \<open>
  Claim C10 as it is written fails where the list is non-empty and the index is not one of
  its positions: with three buttons, return at index 3 raises IndexError, and up at index 5
  leaves index 4.
\<close>

theorem key_down_safe_counterexample:
  "buttons (example_menu\<lparr>button_index := 3\<rparr>) \<noteq> [] \<and>
   fst (key_down (example_menu\<lparr>button_index := 3\<rparr>) K_RETURN []) = Some IndexError \<and>
   fst (key_down (example_menu\<lparr>button_index := 5\<rparr>) K_UP []) = None \<and>
   \<not> button_index (fst (snd (key_down (example_menu\<lparr>button_index := 5\<rparr>) K_UP [])))
       < int (length (buttons (example_menu\<lparr>button_index := 5\<rparr>)))"
  by (simp add: example_menu_def key_down_def py_position_def Let_def)

end
